theory Spec2Isabelle
  imports Main "HOL-Library.Word"
begin

section \<open>The deterministic P-256 key management service of Credo-TS\<close>

text \<open>
  A shallow embedding of \<^verbatim>\<open>BIP39KeyManagementService.ts\<close>: a wrapper around an existing
  key management service that creates P-256 keys deterministically from a mnemonic and a
  derivation context, and hands every other request to the wrapped service.

  The methods of the class are asynchronous; a rejected promise and a thrown exception are
  both modelled as the left injection of a sum, a resolved promise and a returned value as
  the right one. Calls are modelled as run one after the other.
\<close>

subsection \<open>Values\<close>

type_synonym bytes = "8 word list"

text \<open>
  What a JavaScript \<^verbatim>\<open>throw\<close> can carry: a \<^verbatim>\<open>CredoError\<close> (built from a message and
  an optional cause), another instance of \<^verbatim>\<open>Error\<close> with its message, or a value
  that is not an \<^verbatim>\<open>Error\<close> at all.
\<close>

datatype thrown =
    CredoError string "thrown option"
  | JsError string
  | NonError

text \<open>
  Options and results whose types are declared outside the service (\<^verbatim>\<open>KmsSignOptions\<close>,
  \<^verbatim>\<open>KmsSignReturn\<close>, \<^verbatim>\<open>any\<close>, ...) are values of an untyped universe.
\<close>

datatype jsValue =
    JsUndefined
  | JsBool bool
  | JsNumber int
  | JsString string
  | JsBytes bytes
  | JsObject "(string \<times> jsValue) list"

text \<open>The requested key type, \<^verbatim>\<open>options.type\<close>: \<^verbatim>\<open>crv\<close> is absent for some key types.\<close>

record keyType =
  kty :: string
  crv :: "string option"

text \<open>
  \<^verbatim>\<open>DeterministicP256Options\<close>. The spec's data model makes \<^verbatim>\<open>counter\<close> an integer; the
  TypeScript type is \<^verbatim>\<open>number\<close>, whose non-integral values are outside this model.
\<close>

record deterministicP256Options =
  mnemonic :: string
  origin :: string
  userHandle :: string
  counter :: "int option"

text \<open>\<^verbatim>\<open>BIP39CreateKeyOptions\<close>: the options of Credo with the optional \<^verbatim>\<open>p256Options\<close>.\<close>

record createKeyOptions =
  type :: keyType
  options_keyId :: "string option"
  p256Options :: "deterministicP256Options option"

record jwkPublic =
  jwk_kty :: string
  jwk_crv :: "string option"
  jwk_x :: "string option"
  jwk_y :: "string option"
  jwk_kid :: "string option"

record createKeyReturn =
  keyId :: string
  publicJwk :: jwkPublic

subsection \<open>Collaborators\<close>

text \<open>
  The agent context gives the logger; \<^verbatim>\<open>logger.debug\<close> acts on the logger's own state
  \<open>'l\<close> and may throw.
\<close>

record 'l agentContext =
  logger_debug :: "string \<Rightarrow> 'l \<Rightarrow> thrown option \<times> 'l"

text \<open>
  The interface \<^verbatim>\<open>KeyManagementService\<close> of the wrapped service. A method acts on the
  state \<open>'s\<close> of the wrapped service and, through the agent context it is given, on the
  logger.
\<close>

type_synonym ('s, 'l, 'a) kmsMethod = "'s \<times> 'l \<Rightarrow> (thrown + 'a) \<times> ('s \<times> 'l)"

record ('s, 'l) keyManagementService =
  kms_backend :: string
  kms_supportsKeyType :: "jsValue \<Rightarrow> bool"
  kms_isOperationSupported :: "jsValue \<Rightarrow> bool"
  kms_createKey :: "'l agentContext \<Rightarrow> createKeyOptions \<Rightarrow> ('s, 'l, createKeyReturn) kmsMethod"
  kms_getPublicKey :: "'l agentContext \<Rightarrow> string \<Rightarrow> ('s, 'l, jwkPublic option) kmsMethod"
  kms_importKey :: "'l agentContext \<Rightarrow> jsValue \<Rightarrow> ('s, 'l, jsValue) kmsMethod"
  kms_deleteKey :: "'l agentContext \<Rightarrow> jsValue \<Rightarrow> ('s, 'l, jsValue) kmsMethod"
  kms_randomBytes :: "'l agentContext \<Rightarrow> jsValue \<Rightarrow> ('s, 'l, jsValue) kmsMethod"
  kms_sign :: "'l agentContext \<Rightarrow> jsValue \<Rightarrow> ('s, 'l, jsValue) kmsMethod"
  kms_verify :: "'l agentContext \<Rightarrow> jsValue \<Rightarrow> ('s, 'l, jsValue) kmsMethod"
  kms_encrypt :: "'l agentContext \<Rightarrow> jsValue \<Rightarrow> ('s, 'l, jsValue) kmsMethod"
  kms_decrypt :: "'l agentContext \<Rightarrow> jsValue \<Rightarrow> ('s, 'l, jsValue) kmsMethod"

text \<open>
  Modelled from the spec: the derivation library dp256 (its class \<^verbatim>\<open>DeterministicP256\<close>)
  is an external package, absent from the sources. Of its methods the service calls three.
  After the spec (4.1: the main secret is a ``deterministic function of the mnemonic only'',
  ``no randomness involved''; 4.2: ``side effects: none; pure function of inputs'') each is
  a function of its arguments alone. What each computes is left open, and each may throw.
\<close>

record deterministicP256 =
  genDerivedMainKeyWithBIP39 :: "string \<Rightarrow> thrown + bytes"
  genDomainSpecificKeyPair :: "bytes \<Rightarrow> string \<Rightarrow> string \<Rightarrow> int \<Rightarrow> thrown + bytes"
  getPurePKBytes :: "bytes \<Rightarrow> thrown + bytes"

text \<open>
  What else the service uses and does not define, each of which may throw inside the
  \<^verbatim>\<open>try\<close> block: the construction \<^verbatim>\<open>new DeterministicP256()\<close>, the base64 rendering of
  a buffer, \<^verbatim>\<open>Buffer.from(b).toString('base64')\<close>, and \<^verbatim>\<open>base64ToBase64URL\<close>. The last
  field is how the runtime prints, in a template literal, a number that is not a safe
  integer (see below); it is left open.
\<close>

record externals =
  newDeterministicP256 :: "thrown + deterministicP256"
  bufferToBase64 :: "bytes \<Rightarrow> thrown + string"
  base64ToBase64URL :: "string \<Rightarrow> thrown + string"
  printUnsafeInteger :: "int \<Rightarrow> string"

subsection \<open>The world the service runs in\<close>

text \<open>
  The state of the wrapped service, the state of the logger, and the list of the calls made
  on the wrapped service so far, oldest first.
\<close>

datatype kmsCall =
    CreateKeyCall createKeyOptions
  | GetPublicKeyCall string
  | ImportKeyCall jsValue
  | DeleteKeyCall jsValue
  | RandomBytesCall jsValue
  | SignCall jsValue
  | VerifyCall jsValue
  | EncryptCall jsValue
  | DecryptCall jsValue

record ('s, 'l) world =
  backend_state :: 's
  logger_state :: 'l
  calls :: "kmsCall list"

text \<open>One call of a method of the wrapped service: it runs, and the call is recorded.\<close>

definition invoke ::
  "kmsCall \<Rightarrow> ('s, 'l, 'a) kmsMethod \<Rightarrow> ('s, 'l) world \<Rightarrow> (thrown + 'a) \<times> ('s, 'l) world" where
  "invoke c m w =
     (case m (backend_state w, logger_state w) of
        (r, (s', l')) \<Rightarrow>
          (r, \<lparr>backend_state = s', logger_state = l', calls = calls w @ [c]\<rparr>))"

subsection \<open>Strings\<close>

text \<open>
  A template literal renders a safe integer, one of magnitude below \<open>2\<^sup>5\<^sup>3\<close>, in decimal,
  with a minus sign when it is negative. Beyond the safe integers the runtime prints the
  shortest digits that read back as the same number, and exponent notation from
  \<open>10\<^sup>2\<^sup>1\<close> on: there \<open>numberToString\<close> is not what the runtime prints, and the model of
  the service does not use it.
\<close>

definition isSafeInteger :: "int \<Rightarrow> bool" where
  "isSafeInteger n = (- 9007199254740991 \<le> n \<and> n \<le> 9007199254740991)"

definition digitChar :: "nat \<Rightarrow> char" where
  "digitChar d = ''0123456789'' ! d"

fun digits :: "nat \<Rightarrow> string" where
  "digits n = (if n < 10 then [digitChar n] else digits (n div 10) @ [digitChar (n mod 10)])"

declare digits.simps [simp del]

definition numberToString :: "int \<Rightarrow> string" where
  "numberToString n = (if n < 0 then CHR ''-'' # digits (nat (- n)) else digits (nat n))"

text \<open>\<^verbatim>\<open>a.slice(start, end)\<close> on a typed array, for indices that are not negative.\<close>

definition slice :: "nat \<Rightarrow> nat \<Rightarrow> 'a list \<Rightarrow> 'a list" where
  "slice start end xs = take (end - start) (drop start xs)"

subsection \<open>The service\<close>

record ('s, 'l) service =
  backend :: string
  wrappedKms :: "('s, 'l) keyManagementService"

text \<open>The constructor, with the initialiser of the read-only field \<^verbatim>\<open>backend\<close>.\<close>

definition BIP39KeyManagementService ::
  "('s, 'l) keyManagementService \<Rightarrow> ('s, 'l) service" where
  "BIP39KeyManagementService k = \<lparr>backend = ''BIP39P256'', wrappedKms = k\<rparr>"

text \<open>Both methods are declared without parameters: whatever a caller passes is ignored.\<close>

definition supportsKeyType :: "('s, 'l) service \<Rightarrow> 'a \<Rightarrow> bool" where
  "supportsKeyType this args = True"

definition isOperationSupported :: "('s, 'l) service \<Rightarrow> 'a \<Rightarrow> bool" where
  "isOperationSupported this args = True"

text \<open>The identifier of a derived key, line 110 of the source, for a safe integer counter.\<close>

definition keyIdOf :: "string \<Rightarrow> string \<Rightarrow> int \<Rightarrow> string" where
  "keyIdOf org usr cnt = ''p256-'' @ org @ ''-'' @ usr @ ''-'' @ numberToString cnt"

text \<open>
  The \<^verbatim>\<open>catch\<close> clause of \<^verbatim>\<open>createDeterministicP256Key\<close>: whatever the \<^verbatim>\<open>try\<close> block
  threw is wrapped in a \<^verbatim>\<open>CredoError\<close>.
\<close>

definition catchClause :: "thrown \<Rightarrow> thrown" where
  "catchClause error =
     CredoError
       (''Failed to generate deterministic P-256 passkey: '' @
          (case error of
             CredoError m c \<Rightarrow> m
           | JsError m \<Rightarrow> m
           | NonError \<Rightarrow> ''Unknown error''))
       (Some error)"

text \<open>
  Every call inside the \<^verbatim>\<open>try\<close> block can throw, and whatever it throws reaches the
  \<^verbatim>\<open>catch\<close> clause: the construction, the three methods of the library, the two encoders
  on each half of the public key bytes, and the logger.
\<close>

definition createDeterministicP256Key ::
  "externals \<Rightarrow> ('s, 'l) service \<Rightarrow> 'l agentContext \<Rightarrow> createKeyOptions \<Rightarrow>
   ('s, 'l) world \<Rightarrow> (thrown + createKeyReturn) \<times> ('s, 'l) world" where
  "createDeterministicP256Key ext this agentCtx options w =
     (case p256Options options of
        None \<Rightarrow>
          (Inl (CredoError ''p256Options required for deterministic P-256 key generation'' None), w)
      | Some p \<Rightarrow>
       (let cnt = (case counter p of None \<Rightarrow> 0 | Some c \<Rightarrow> c) in
        case newDeterministicP256 ext of
          Inl error \<Rightarrow> (Inl (catchClause error), w)
        | Inr dp256 \<Rightarrow>
         (case genDerivedMainKeyWithBIP39 dp256 (mnemonic p) of
            Inl error \<Rightarrow> (Inl (catchClause error), w)
          | Inr mainKey \<Rightarrow>
           (case genDomainSpecificKeyPair dp256 mainKey (origin p) (userHandle p) cnt of
              Inl error \<Rightarrow> (Inl (catchClause error), w)
            | Inr privateKey \<Rightarrow>
             (case getPurePKBytes dp256 privateKey of
                Inl error \<Rightarrow> (Inl (catchClause error), w)
              | Inr publicKeyBytes \<Rightarrow>
               (let kid =
                      (if isSafeInteger cnt then keyIdOf (origin p) (userHandle p) cnt
                       else ''p256-'' @ origin p @ ''-'' @ userHandle p @ ''-'' @
                              printUnsafeInteger ext cnt)
                in
                case bufferToBase64 ext (slice 0 32 publicKeyBytes) of
                  Inl error \<Rightarrow> (Inl (catchClause error), w)
                | Inr base64X \<Rightarrow>
                 (case base64ToBase64URL ext base64X of
                    Inl error \<Rightarrow> (Inl (catchClause error), w)
                  | Inr xCoord \<Rightarrow>
                   (case bufferToBase64 ext (slice 32 64 publicKeyBytes) of
                      Inl error \<Rightarrow> (Inl (catchClause error), w)
                    | Inr base64Y \<Rightarrow>
                     (case base64ToBase64URL ext base64Y of
                        Inl error \<Rightarrow> (Inl (catchClause error), w)
                      | Inr yCoord \<Rightarrow>
                       (case logger_debug agentCtx
                               (''Generated deterministic P-256 passkey for origin: '' @
                                  origin p @ '', user: '' @ userHandle p)
                               (logger_state w) of
                          (Some error, l') \<Rightarrow>
                            (Inl (catchClause error), w\<lparr>logger_state := l'\<rparr>)
                        | (None, l') \<Rightarrow>
                            (Inr \<lparr>keyId = kid,
                                  publicJwk = \<lparr>jwk_kty = ''EC'',
                                                jwk_crv = Some ''P-256'',
                                                jwk_x = Some xCoord,
                                                jwk_y = Some yCoord,
                                                jwk_kid = Some kid\<rparr>\<rparr>,
                             w\<lparr>logger_state := l'\<rparr>)))))))))))"

definition createKey ::
  "externals \<Rightarrow> ('s, 'l) service \<Rightarrow> 'l agentContext \<Rightarrow> createKeyOptions \<Rightarrow>
   ('s, 'l) world \<Rightarrow> (thrown + createKeyReturn) \<times> ('s, 'l) world" where
  "createKey ext this agentCtx options w =
     (if kty (type options) = ''EC'' \<and> crv (type options) = Some ''P-256'' then
        (if p256Options options = None then
           (Inl (CredoError ''p256Options required for deterministic P-256 key generation'' None), w)
         else createDeterministicP256Key ext this agentCtx options w)
      else invoke (CreateKeyCall options)
             (kms_createKey (wrappedKms this) agentCtx options) w)"

text \<open>The other methods hand their arguments to the wrapped service.\<close>

definition getPublicKey ::
  "('s, 'l) service \<Rightarrow> 'l agentContext \<Rightarrow> string \<Rightarrow>
   ('s, 'l) world \<Rightarrow> (thrown + jwkPublic option) \<times> ('s, 'l) world" where
  "getPublicKey this agentCtx kid w =
     invoke (GetPublicKeyCall kid) (kms_getPublicKey (wrappedKms this) agentCtx kid) w"

definition importKey ::
  "('s, 'l) service \<Rightarrow> 'l agentContext \<Rightarrow> jsValue \<Rightarrow>
   ('s, 'l) world \<Rightarrow> (thrown + jsValue) \<times> ('s, 'l) world" where
  "importKey this agentCtx options w =
     invoke (ImportKeyCall options) (kms_importKey (wrappedKms this) agentCtx options) w"

definition deleteKey ::
  "('s, 'l) service \<Rightarrow> 'l agentContext \<Rightarrow> jsValue \<Rightarrow>
   ('s, 'l) world \<Rightarrow> (thrown + jsValue) \<times> ('s, 'l) world" where
  "deleteKey this agentCtx options w =
     invoke (DeleteKeyCall options) (kms_deleteKey (wrappedKms this) agentCtx options) w"

definition randomBytes ::
  "('s, 'l) service \<Rightarrow> 'l agentContext \<Rightarrow> jsValue \<Rightarrow>
   ('s, 'l) world \<Rightarrow> (thrown + jsValue) \<times> ('s, 'l) world" where
  "randomBytes this agentCtx options w =
     invoke (RandomBytesCall options) (kms_randomBytes (wrappedKms this) agentCtx options) w"

definition sign ::
  "('s, 'l) service \<Rightarrow> 'l agentContext \<Rightarrow> jsValue \<Rightarrow>
   ('s, 'l) world \<Rightarrow> (thrown + jsValue) \<times> ('s, 'l) world" where
  "sign this agentCtx options w =
     invoke (SignCall options) (kms_sign (wrappedKms this) agentCtx options) w"

definition verify ::
  "('s, 'l) service \<Rightarrow> 'l agentContext \<Rightarrow> jsValue \<Rightarrow>
   ('s, 'l) world \<Rightarrow> (thrown + jsValue) \<times> ('s, 'l) world" where
  "verify this agentCtx options w =
     invoke (VerifyCall options) (kms_verify (wrappedKms this) agentCtx options) w"

definition encrypt ::
  "('s, 'l) service \<Rightarrow> 'l agentContext \<Rightarrow> jsValue \<Rightarrow>
   ('s, 'l) world \<Rightarrow> (thrown + jsValue) \<times> ('s, 'l) world" where
  "encrypt this agentCtx options w =
     invoke (EncryptCall options) (kms_encrypt (wrappedKms this) agentCtx options) w"

definition decrypt ::
  "('s, 'l) service \<Rightarrow> 'l agentContext \<Rightarrow> jsValue \<Rightarrow>
   ('s, 'l) world \<Rightarrow> (thrown + jsValue) \<times> ('s, 'l) world" where
  "decrypt this agentCtx options w =
     invoke (DecryptCall options) (kms_decrypt (wrappedKms this) agentCtx options) w"

subsection \<open>The environment of the unit test\<close>

text \<open>
  The unit test of the service replaces the library dp256 and the wrapped service by mocks
  that answer with fixed values. They are reproduced here to run the service on concrete
  requests. The two encoders are the usual ones: base64 with the alphabet and the padding
  of RFC 4648, and the passage to the URL-safe alphabet without padding. No request of the
  test has a counter beyond the safe integers; for such a counter the environment prints
  what the runtime prints for \<open>10\<^sup>2\<^sup>1\<close>.
\<close>

definition base64Char :: "nat \<Rightarrow> char" where
  "base64Char i =
     ''ABCDEFGHIJKLMNOPQRSTUVWXYZabcdefghijklmnopqrstuvwxyz0123456789+/'' ! i"

fun base64Groups :: "nat list \<Rightarrow> string" where
  "base64Groups (a # b # c # rest) =
     base64Char (a div 4) # base64Char ((a mod 4) * 16 + b div 16) #
     base64Char ((b mod 16) * 4 + c div 64) # base64Char (c mod 64) # base64Groups rest"
| "base64Groups [a, b] =
     [base64Char (a div 4), base64Char ((a mod 4) * 16 + b div 16),
      base64Char ((b mod 16) * 4), CHR ''='']"
| "base64Groups [a] =
     [base64Char (a div 4), base64Char ((a mod 4) * 16), CHR ''='', CHR ''='']"
| "base64Groups [] = []"

definition testBufferToBase64 :: "bytes \<Rightarrow> string" where
  "testBufferToBase64 bs = base64Groups (map unat bs)"

definition testBase64ToBase64URL :: "string \<Rightarrow> string" where
  "testBase64ToBase64URL s =
     filter (\<lambda>c. c \<noteq> CHR ''='')
       (map (\<lambda>c. if c = CHR ''+'' then CHR ''-'' else if c = CHR ''/'' then CHR ''_'' else c) s)"

definition mockDeterministicP256 :: deterministicP256 where
  "mockDeterministicP256 =
     \<lparr>genDerivedMainKeyWithBIP39 = (\<lambda>m. Inr (replicate 32 1)),
      genDomainSpecificKeyPair = (\<lambda>mainKey org usr cnt. Inr (replicate 32 2)),
      getPurePKBytes = (\<lambda>privateKey. Inr (replicate 64 3))\<rparr>"

definition mockExternals :: externals where
  "mockExternals =
     \<lparr>newDeterministicP256 = Inr mockDeterministicP256,
      bufferToBase64 = (\<lambda>b. Inr (testBufferToBase64 b)),
      base64ToBase64URL = (\<lambda>s. Inr (testBase64ToBase64URL s)),
      printUnsafeInteger = (\<lambda>n. ''1e+21'')\<rparr>"

text \<open>The mocked logger keeps the messages it is given, oldest first.\<close>

definition mockAgentContext :: "string list agentContext" where
  "mockAgentContext = \<lparr>logger_debug = (\<lambda>msg l. (None, l @ [msg]))\<rparr>"

text \<open>
  The mocked wrapped service counts the calls it receives (as \<^verbatim>\<open>jest.fn\<close> does) and
  answers each with the fixed value of the test.
\<close>

definition mockAnswer :: "'a \<Rightarrow> (nat, 'l, 'a) kmsMethod" where
  "mockAnswer v = (\<lambda>(n, l). (Inr v, (Suc n, l)))"

definition mockWrappedKms :: "(nat, string list) keyManagementService" where
  "mockWrappedKms =
     \<lparr>kms_backend = ''mock-kms'',
      kms_supportsKeyType = (\<lambda>t. True),
      kms_isOperationSupported = (\<lambda>operation. True),
      kms_createKey = (\<lambda>agentCtx options. mockAnswer
         \<lparr>keyId = ''mock-key-id'',
          publicJwk = \<lparr>jwk_kty = ''OKP'', jwk_crv = Some ''Ed25519'',
                       jwk_x = Some ''mock-x-value'', jwk_y = None,
                       jwk_kid = Some ''mock-key-id''\<rparr>\<rparr>),
      kms_getPublicKey = (\<lambda>agentCtx kid. mockAnswer
         (Some \<lparr>jwk_kty = ''OKP'', jwk_crv = Some ''Ed25519'',
                jwk_x = Some ''mock-x-value'', jwk_y = None, jwk_kid = None\<rparr>)),
      kms_importKey = (\<lambda>agentCtx options. mockAnswer
         (JsObject [(''keyId'', JsString ''mock-imported-key'')])),
      kms_deleteKey = (\<lambda>agentCtx options. mockAnswer JsUndefined),
      kms_randomBytes = (\<lambda>agentCtx options. mockAnswer (JsBytes (replicate 32 0))),
      kms_sign = (\<lambda>agentCtx options. mockAnswer
         (JsObject [(''signature'', JsBytes (replicate 64 0))])),
      kms_verify = (\<lambda>agentCtx options. mockAnswer (JsObject [(''isValid'', JsBool True)])),
      kms_encrypt = (\<lambda>agentCtx options. mockAnswer
         (JsObject [(''encryptedData'', JsBytes (replicate 64 0))])),
      kms_decrypt = (\<lambda>agentCtx options. mockAnswer
         (JsObject [(''data'', JsBytes (replicate 32 0))]))\<rparr>"

definition bip39Kms :: "(nat, string list) service" where
  "bip39Kms = BIP39KeyManagementService mockWrappedKms"

definition initialWorld :: "(nat, string list) world" where
  "initialWorld = \<lparr>backend_state = 0, logger_state = [], calls = []\<rparr>"

text \<open>The requests of the unit test.\<close>

definition TEST_MNEMONIC :: string where
  "TEST_MNEMONIC =
     ''abandon abandon abandon abandon abandon abandon abandon abandon abandon abandon abandon about''"

definition p256Request :: "int option \<Rightarrow> createKeyOptions" where
  "p256Request cnt =
     \<lparr>type = \<lparr>kty = ''EC'', crv = Some ''P-256''\<rparr>,
      options_keyId = None,
      p256Options = Some \<lparr>mnemonic = TEST_MNEMONIC, origin = ''https://example.com'',
                           userHandle = ''user123'', counter = cnt\<rparr>\<rparr>"

definition p256RequestWithoutOptions :: createKeyOptions where
  "p256RequestWithoutOptions =
     \<lparr>type = \<lparr>kty = ''EC'', crv = Some ''P-256''\<rparr>, options_keyId = None, p256Options = None\<rparr>"

definition ed25519Request :: createKeyOptions where
  "ed25519Request =
     \<lparr>type = \<lparr>kty = ''OKP'', crv = Some ''Ed25519''\<rparr>,
      options_keyId = Some ''test-ed25519-key'', p256Options = None\<rparr>"

text \<open>
  A later state of the same world, after two calls on the wrapped service and one message to
  the logger.
\<close>

definition laterWorld :: "(nat, string list) world" where
  "laterWorld =
     \<lparr>backend_state = 2, logger_state = [''earlier message''],
      calls = [CreateKeyCall ed25519Request, GetPublicKeyCall ''mock-key-id'']\<rparr>"

text \<open>
  A derivation library that refuses a negative counter, and otherwise answers as the mock
  does.
\<close>

definition strictExternals :: externals where
  "strictExternals =
     mockExternals\<lparr>newDeterministicP256 :=
       Inr (mockDeterministicP256\<lparr>genDomainSpecificKeyPair :=
              (\<lambda>mainKey org usr cnt.
                 if cnt < 0 then Inl (JsError ''counter must not be negative'')
                 else Inr (replicate 32 2))\<rparr>)\<rparr>"

text \<open>
  A derivation library whose answers depend on what it is given: the main key is made of
  the bytes of the mnemonic, the private key of the main key, the context and the counter,
  the public key bytes of the private key.
\<close>

definition bytesOf :: "string \<Rightarrow> bytes" where
  "bytesOf s = map (\<lambda>c. of_nat (of_char c)) s"

definition toyDeterministicP256 :: deterministicP256 where
  "toyDeterministicP256 =
     \<lparr>genDerivedMainKeyWithBIP39 = (\<lambda>m. Inr (take 32 (bytesOf m @ replicate 32 0))),
      genDomainSpecificKeyPair =
        (\<lambda>mainKey org usr cnt.
           Inr (take 32 (of_int cnt # bytesOf org @ bytesOf usr @ mainKey))),
      getPurePKBytes = (\<lambda>privateKey. Inr (privateKey @ rev privateKey))\<rparr>"

definition toyExternals :: externals where
  "toyExternals = mockExternals\<lparr>newDeterministicP256 := Inr toyDeterministicP256\<rparr>"

text \<open>A library whose construction fails.\<close>

definition brokenExternals :: externals where
  "brokenExternals = mockExternals\<lparr>newDeterministicP256 := Inl (JsError ''no crypto'')\<rparr>"

section \<open>Properties\<close>

subsection \<open>Decimal numerals and separators\<close>

lemma digitChar_inj: "d < 10 \<Longrightarrow> e < 10 \<Longrightarrow> digitChar d = digitChar e \<Longrightarrow> d = e"
proof -
  assume d: "d < 10" and e: "e < 10" and eq: "digitChar d = digitChar e"
  have dist: "distinct ''0123456789''" by simp
  have len: "length ''0123456789'' = 10" by simp
  from eq have "''0123456789'' ! d = ''0123456789'' ! e" by (simp only: digitChar_def)
  with dist d e len show "d = e" by (simp only: nth_eq_iff_index_eq)
qed

lemma digitChar_not_dash: "d < 10 \<Longrightarrow> digitChar d \<noteq> CHR ''-''"
proof -
  assume d: "d < 10"
  have "''0123456789'' ! d \<in> set ''0123456789''"
    by (rule nth_mem) (use d in simp)
  moreover have "CHR ''-'' \<notin> set ''0123456789''" by simp
  ultimately show ?thesis unfolding digitChar_def by metis
qed

lemma digits_not_Nil: "digits n \<noteq> []"
  by (subst digits.simps) simp

lemma digits_no_dash: "CHR ''-'' \<notin> set (digits n)"
proof (induction n rule: digits.induct)
  case (1 n)
  show ?case
  proof (cases "n < 10")
    case True
    then show ?thesis using digitChar_not_dash [of n] by (subst digits.simps) auto
  next
    case False
    then have "CHR ''-'' \<notin> set (digits (n div 10))" using "1.IH" by simp
    moreover have "digitChar (n mod 10) \<noteq> CHR ''-''" by (rule digitChar_not_dash) simp
    ultimately show ?thesis using False by (subst digits.simps) auto
  qed
qed

lemma digits_inj: "digits n = digits m \<Longrightarrow> n = m"
proof (induction n arbitrary: m rule: digits.induct)
  case (1 n)
  show ?case
  proof (cases "n < 10")
    case n: True
    show ?thesis
    proof (cases "m < 10")
      case True
      with n "1.prems" show ?thesis
        by (simp add: digits.simps [of n] digits.simps [of m] digitChar_inj)
    next
      case False
      with n "1.prems" have "[digitChar n] = digits (m div 10) @ [digitChar (m mod 10)]"
        by (simp add: digits.simps [of n] digits.simps [of m])
      then have "digits (m div 10) = []" by simp
      then show ?thesis by (simp add: digits_not_Nil)
    qed
  next
    case n: False
    show ?thesis
    proof (cases "m < 10")
      case True
      with n "1.prems" have "digits (n div 10) @ [digitChar (n mod 10)] = [digitChar m]"
        by (simp add: digits.simps [of n] digits.simps [of m])
      then have "digits (n div 10) = []" by simp
      then show ?thesis by (simp add: digits_not_Nil)
    next
      case False
      with n "1.prems" have eq: "digits (n div 10) = digits (m div 10)"
        and last: "digitChar (n mod 10) = digitChar (m mod 10)"
        by (simp_all add: digits.simps [of n] digits.simps [of m])
      from eq n have "n div 10 = m div 10" by (rule "1.IH" [rotated]) 
      moreover from last have "n mod 10 = m mod 10" by (rule digitChar_inj [rotated 2]) simp_all
      ultimately show ?thesis by (metis div_mult_mod_eq)
    qed
  qed
qed

lemma numberToString_nonneg: "0 \<le> c \<Longrightarrow> numberToString c = digits (nat c)"
  by (simp add: numberToString_def)

lemma split_at_first:
  assumes "x \<notin> set xs" "x \<notin> set xs'" "xs @ x # ys = xs' @ x # ys'"
  shows "xs = xs' \<and> ys = ys'"
  using assms
proof (induction xs arbitrary: xs')
  case Nil
  then show ?case by (cases xs') auto
next
  case (Cons a xs)
  then show ?case by (cases xs') auto
qed

lemma split_at_last:
  assumes "x \<notin> set ys" "x \<notin> set ys'" "xs @ x # ys = xs' @ x # ys'"
  shows "xs = xs' \<and> ys = ys'"
proof -
  from assms(3) have "rev (xs @ x # ys) = rev (xs' @ x # ys')" by simp
  then have "rev ys @ x # rev xs = rev ys' @ x # rev xs'" by simp
  moreover have "x \<notin> set (rev ys)" "x \<notin> set (rev ys')" using assms(1,2) by simp_all
  ultimately have "rev ys = rev ys' \<and> rev xs = rev xs'"
    by (rule split_at_first [rotated 2])
  then show ?thesis by simp
qed

subsection \<open>The identifier of a derived key\<close>

text \<open>
  C6 (as stated): the identifier \<open>p256-<origin>-<userHandle>-<counter>\<close> is injective over
  the triples (origin, userHandle, counter). It is not: the separator may occur in the
  origin and in the user handle, so two distinct triples can give one identifier.
\<close>

theorem keyIdOf_collision:
  "(''a-b'', ''c'', 0::int) \<noteq> (''a'', ''b-c'', 0) \<and> keyIdOf ''a-b'' ''c'' 0 = keyIdOf ''a'' ''b-c'' 0"
  by (simp add: keyIdOf_def)

text \<open>
  C6 (amended): two distinct triples whose counters are not negative, and whose origins
  (or whose user handles) are free of the separator \<open>-\<close>, have distinct identifiers.
\<close>

theorem keyIdOf_distinct:
  assumes "(o1, u1, c1) \<noteq> (o2, u2, c2)"
    and "0 \<le> c1" and "0 \<le> c2"
    and "(CHR ''-'' \<notin> set o1 \<and> CHR ''-'' \<notin> set o2) \<or> (CHR ''-'' \<notin> set u1 \<and> CHR ''-'' \<notin> set u2)"
  shows "keyIdOf o1 u1 c1 \<noteq> keyIdOf o2 u2 c2"
proof
  assume "keyIdOf o1 u1 c1 = keyIdOf o2 u2 c2"
  with assms(2,3) have eq: "o1 @ CHR ''-'' # u1 @ CHR ''-'' # digits (nat c1)
      = o2 @ CHR ''-'' # u2 @ CHR ''-'' # digits (nat c2)"
    by (simp add: keyIdOf_def numberToString_nonneg)
  have "o1 = o2 \<and> u1 = u2 \<and> digits (nat c1) = digits (nat c2)"
    using assms(4)
  proof
    assume "CHR ''-'' \<notin> set o1 \<and> CHR ''-'' \<notin> set o2"
    then have "o1 = o2 \<and> u1 @ CHR ''-'' # digits (nat c1) = u2 @ CHR ''-'' # digits (nat c2)"
      using eq by (intro split_at_first) simp_all
    then have "o1 = o2" and "u1 @ CHR ''-'' # digits (nat c1) = u2 @ CHR ''-'' # digits (nat c2)"
      by simp_all
    moreover from this(2) have "u1 = u2 \<and> digits (nat c1) = digits (nat c2)"
      by (rule split_at_last [OF digits_no_dash digits_no_dash])
    ultimately show ?thesis by simp
  next
    assume u: "CHR ''-'' \<notin> set u1 \<and> CHR ''-'' \<notin> set u2"
    from eq have "(o1 @ CHR ''-'' # u1) @ CHR ''-'' # digits (nat c1)
      = (o2 @ CHR ''-'' # u2) @ CHR ''-'' # digits (nat c2)" by simp
    then have "o1 @ CHR ''-'' # u1 = o2 @ CHR ''-'' # u2 \<and> digits (nat c1) = digits (nat c2)"
      by (rule split_at_last [OF digits_no_dash digits_no_dash])
    moreover from this u have "o1 = o2 \<and> u1 = u2"
      by (intro split_at_last [of "CHR ''-''"]) simp_all
    ultimately show ?thesis by simp
  qed
  then have "o1 = o2 \<and> u1 = u2 \<and> nat c1 = nat c2" by (auto dest: digits_inj)
  with assms(2,3) have "(o1, u1, c1) = (o2, u2, c2)" by (simp add: eq_nat_nat_iff)
  with assms(1) show False by contradiction
qed

text \<open>The two GitHub keys of the README, which differ in the counter only.\<close>

theorem keyIdOf_distinct_witness:
  "(''github.com'', ''developer123'', 0::int) \<noteq> (''github.com'', ''developer123'', 1) \<and>
   (0::int) \<le> 0 \<and> (0::int) \<le> 1 \<and>
   (CHR ''-'' \<notin> set ''github.com'' \<and> CHR ''-'' \<notin> set ''github.com'' \<or>
    CHR ''-'' \<notin> set ''developer123'' \<and> CHR ''-'' \<notin> set ''developer123'') \<and>
   keyIdOf ''github.com'' ''developer123'' 0 \<noteq> keyIdOf ''github.com'' ''developer123'' 1"
  using keyIdOf_distinct [of "''github.com''" "''developer123''" 0 "''github.com''" "''developer123''" 1]
  by simp

subsection \<open>Calls on the wrapped service\<close>

lemma invoke_unfold:
  "invoke c m w =
     (fst (m (backend_state w, logger_state w)),
      \<lparr>backend_state = fst (snd (m (backend_state w, logger_state w))),
       logger_state = snd (snd (m (backend_state w, logger_state w))),
       calls = calls w @ [c]\<rparr>)"
  by (simp add: invoke_def split: prod.splits)

lemma fst_eq_iff:
  "(fst run = a) = (\<exists>b. run = (a, b))"
  by (cases run) simp

subsection \<open>The two branches of key creation\<close>

lemma createKey_p256:
  assumes "kty (type options) = ''EC''" and "crv (type options) = Some ''P-256''"
  shows "createKey ext this agentCtx options w =
           createDeterministicP256Key ext this agentCtx options w"
  using assms by (simp add: createKey_def createDeterministicP256Key_def)

lemma createKey_other_types:
  assumes "\<not> (kty (type options) = ''EC'' \<and> crv (type options) = Some ''P-256'')"
  shows "createKey ext this agentCtx options w =
           invoke (CreateKeyCall options) (kms_createKey (wrappedKms this) agentCtx options) w"
  using assms by (auto simp add: createKey_def)

lemma createDeterministicP256Key_frame:
  "backend_state (snd (createDeterministicP256Key ext this agentCtx options w)) = backend_state w \<and>
   calls (snd (createDeterministicP256Key ext this agentCtx options w)) = calls w"
  by (simp add: createDeterministicP256Key_def Let_def split: option.splits sum.splits prod.splits)

lemma createDeterministicP256Key_backend_free:
  "fst (createDeterministicP256Key ext this agentCtx options w) =
     fst (createDeterministicP256Key ext this' agentCtx options
            \<lparr>backend_state = s', logger_state = logger_state w, calls = cs'\<rparr>)"
  by (simp add: createDeterministicP256Key_def Let_def split: option.splits sum.splits prod.splits)

lemma createDeterministicP256Key_Inr:
  assumes "p256Options options = Some p"
  shows "(createDeterministicP256Key ext this agentCtx options w = (Inr r, w')) =
     (\<exists>dp256 mainKey privateKey publicKeyBytes base64X xCoord base64Y yCoord l'.
        newDeterministicP256 ext = Inr dp256 \<and>
        genDerivedMainKeyWithBIP39 dp256 (mnemonic p) = Inr mainKey \<and>
        genDomainSpecificKeyPair dp256 mainKey (origin p) (userHandle p)
          (case counter p of None \<Rightarrow> 0 | Some c \<Rightarrow> c) = Inr privateKey \<and>
        getPurePKBytes dp256 privateKey = Inr publicKeyBytes \<and>
        bufferToBase64 ext (take 32 publicKeyBytes) = Inr base64X \<and>
        base64ToBase64URL ext base64X = Inr xCoord \<and>
        bufferToBase64 ext (take 32 (drop 32 publicKeyBytes)) = Inr base64Y \<and>
        base64ToBase64URL ext base64Y = Inr yCoord \<and>
        logger_debug agentCtx
          (''Generated deterministic P-256 passkey for origin: '' @ origin p @
             '', user: '' @ userHandle p) (logger_state w) = (None, l') \<and>
        w' = w\<lparr>logger_state := l'\<rparr> \<and>
        keyId r = ''p256-'' @ origin p @ ''-'' @ userHandle p @ ''-'' @
                    (if isSafeInteger (case counter p of None \<Rightarrow> 0 | Some c \<Rightarrow> c)
                     then numberToString (case counter p of None \<Rightarrow> 0 | Some c \<Rightarrow> c)
                     else printUnsafeInteger ext (case counter p of None \<Rightarrow> 0 | Some c \<Rightarrow> c)) \<and>
        publicJwk r =
          \<lparr>jwk_kty = ''EC'', jwk_crv = Some ''P-256'', jwk_x = Some xCoord,
           jwk_y = Some yCoord, jwk_kid = Some (keyId r)\<rparr>)"
  using assms
  by (cases r) (auto simp add: createDeterministicP256Key_def Let_def keyIdOf_def slice_def
      split: sum.splits prod.splits option.splits)

lemma createDeterministicP256Key_Inl:
  assumes "p256Options options = Some p"
  shows "(fst (createDeterministicP256Key ext this agentCtx options w) = Inl e) =
     (\<exists>t. e = CredoError
                (''Failed to generate deterministic P-256 passkey: '' @
                   (case t of CredoError m cause \<Rightarrow> m | JsError m \<Rightarrow> m
                    | NonError \<Rightarrow> ''Unknown error''))
                (Some t) \<and>
       (newDeterministicP256 ext = Inl t \<or>
        (\<exists>dp256. newDeterministicP256 ext = Inr dp256 \<and>
         (genDerivedMainKeyWithBIP39 dp256 (mnemonic p) = Inl t \<or>
          (\<exists>mainKey. genDerivedMainKeyWithBIP39 dp256 (mnemonic p) = Inr mainKey \<and>
           (genDomainSpecificKeyPair dp256 mainKey (origin p) (userHandle p)
              (case counter p of None \<Rightarrow> 0 | Some c \<Rightarrow> c) = Inl t \<or>
            (\<exists>privateKey.
               genDomainSpecificKeyPair dp256 mainKey (origin p) (userHandle p)
                 (case counter p of None \<Rightarrow> 0 | Some c \<Rightarrow> c) = Inr privateKey \<and>
             (getPurePKBytes dp256 privateKey = Inl t \<or>
              (\<exists>publicKeyBytes. getPurePKBytes dp256 privateKey = Inr publicKeyBytes \<and>
               (bufferToBase64 ext (take 32 publicKeyBytes) = Inl t \<or>
                (\<exists>base64X. bufferToBase64 ext (take 32 publicKeyBytes) = Inr base64X \<and>
                 (base64ToBase64URL ext base64X = Inl t \<or>
                  (\<exists>xCoord. base64ToBase64URL ext base64X = Inr xCoord \<and>
                   (bufferToBase64 ext (take 32 (drop 32 publicKeyBytes)) = Inl t \<or>
                    (\<exists>base64Y.
                       bufferToBase64 ext (take 32 (drop 32 publicKeyBytes)) = Inr base64Y \<and>
                     (base64ToBase64URL ext base64Y = Inl t \<or>
                      (\<exists>yCoord. base64ToBase64URL ext base64Y = Inr yCoord \<and>
                         fst (logger_debug agentCtx
                                (''Generated deterministic P-256 passkey for origin: '' @
                                   origin p @ '', user: '' @ userHandle p)
                                (logger_state w)) = Some t)))))))))))))))))"
  using assms
  by (auto simp add: createDeterministicP256Key_def Let_def catchClause_def slice_def
      split: sum.splits prod.splits option.splits)

lemma createDeterministicP256Key_same_context:
  assumes "p256Options options1 = Some p1" and "p256Options options2 = Some p2"
    and "mnemonic p1 = mnemonic p2" and "origin p1 = origin p2"
    and "userHandle p1 = userHandle p2"
    and "(case counter p1 of None \<Rightarrow> 0 | Some c \<Rightarrow> c) =
         (case counter p2 of None \<Rightarrow> 0 | Some c \<Rightarrow> c)"
    and "fst (logger_debug agentCtx1
                (''Generated deterministic P-256 passkey for origin: '' @ origin p1 @
                   '', user: '' @ userHandle p1) (logger_state w1)) = None"
    and "fst (logger_debug agentCtx2
                (''Generated deterministic P-256 passkey for origin: '' @ origin p2 @
                   '', user: '' @ userHandle p2) (logger_state w2)) = None"
  shows "fst (createDeterministicP256Key ext this1 agentCtx1 options1 w1) =
         fst (createDeterministicP256Key ext this2 agentCtx2 options2 w2)"
  using assms
  by (auto simp add: createDeterministicP256Key_def Let_def split: sum.splits prod.splits)

subsection \<open>Runs in the environment of the unit test\<close>

lemma p256Request_type:
  "kty (type (p256Request cnt)) = ''EC''" "crv (type (p256Request cnt)) = Some ''P-256''"
  by (simp_all add: p256Request_def)

lemma p256Request_options:
  "p256Options (p256Request cnt) =
     Some \<lparr>mnemonic = TEST_MNEMONIC, origin = ''https://example.com'',
           userHandle = ''user123'', counter = cnt\<rparr>"
  by (simp add: p256Request_def)

lemma mock_run_default:
  "createKey mockExternals bip39Kms mockAgentContext (p256Request None) initialWorld =
     (Inr \<lparr>keyId = ''p256-https://example.com-user123-0'',
           publicJwk = \<lparr>jwk_kty = ''EC'', jwk_crv = Some ''P-256'',
             jwk_x = Some ''AwMDAwMDAwMDAwMDAwMDAwMDAwMDAwMDAwMDAwMDAwM'',
             jwk_y = Some ''AwMDAwMDAwMDAwMDAwMDAwMDAwMDAwMDAwMDAwMDAwM'',
             jwk_kid = Some ''p256-https://example.com-user123-0''\<rparr>\<rparr>,
      \<lparr>backend_state = 0,
       logger_state =
         [''Generated deterministic P-256 passkey for origin: https://example.com, user: user123''],
       calls = []\<rparr>)"
  by code_simp

lemma mock_run_1205:
  "createKey mockExternals bip39Kms mockAgentContext (p256Request (Some 1205)) laterWorld =
     (Inr \<lparr>keyId = ''p256-https://example.com-user123-1205'',
           publicJwk = \<lparr>jwk_kty = ''EC'', jwk_crv = Some ''P-256'',
             jwk_x = Some ''AwMDAwMDAwMDAwMDAwMDAwMDAwMDAwMDAwMDAwMDAwM'',
             jwk_y = Some ''AwMDAwMDAwMDAwMDAwMDAwMDAwMDAwMDAwMDAwMDAwM'',
             jwk_kid = Some ''p256-https://example.com-user123-1205''\<rparr>\<rparr>,
      \<lparr>backend_state = 2,
       logger_state =
         [''earlier message'',
          ''Generated deterministic P-256 passkey for origin: https://example.com, user: user123''],
       calls = [CreateKeyCall ed25519Request, GetPublicKeyCall ''mock-key-id'']\<rparr>)"
  by code_simp

lemma mock_run_minus_one:
  "fst (createKey mockExternals bip39Kms mockAgentContext (p256Request (Some (- 1)))
          initialWorld) =
     Inr \<lparr>keyId = ''p256-https://example.com-user123--1'',
          publicJwk = \<lparr>jwk_kty = ''EC'', jwk_crv = Some ''P-256'',
            jwk_x = Some ''AwMDAwMDAwMDAwMDAwMDAwMDAwMDAwMDAwMDAwMDAwM'',
            jwk_y = Some ''AwMDAwMDAwMDAwMDAwMDAwMDAwMDAwMDAwMDAwMDAwM'',
            jwk_kid = Some ''p256-https://example.com-user123--1''\<rparr>\<rparr>"
  by code_simp

lemma strict_run_minus_one:
  "fst (createKey strictExternals bip39Kms mockAgentContext (p256Request (Some (- 1)))
          initialWorld) =
     Inl (CredoError
            ''Failed to generate deterministic P-256 passkey: counter must not be negative''
            (Some (JsError ''counter must not be negative'')))"
  by code_simp

lemma broken_run_minus_one:
  "fst (createKey brokenExternals bip39Kms mockAgentContext (p256Request (Some (- 1)))
          initialWorld) =
     Inl (CredoError ''Failed to generate deterministic P-256 passkey: no crypto''
            (Some (JsError ''no crypto'')))"
  by code_simp

lemma toy_run:
  "fst (createKey toyExternals bip39Kms mockAgentContext (p256Request None) initialWorld) =
     Inr \<lparr>keyId = ''p256-https://example.com-user123-0'',
          publicJwk = \<lparr>jwk_kty = ''EC'', jwk_crv = Some ''P-256'',
            jwk_x = Some ''AGh0dHBzOi8vZXhhbXBsZS5jb211c2VyMTIzYWJhbmQ'',
            jwk_y = Some ''ZG5hYmEzMjFyZXN1bW9jLmVscG1heGUvLzpzcHR0aAA'',
            jwk_kid = Some ''p256-https://example.com-user123-0''\<rparr>\<rparr>"
  by code_simp

subsection \<open>What a deterministic key creation returns\<close>

text \<open>
  C1: a request for a key of type EC / P-256 that carries \<open>p256Options\<close> returns a record
  exactly when nothing in the \<^verbatim>\<open>try\<close> block throws: the construction of the library
  object, the three steps of the derivation, the encoders and the logger. The record then
  has the identifier \<open>p256-<origin>-<userHandle>-<counter>\<close>, the counter being \<open>0\<close> when
  it is omitted and printed in decimal when it is a safe integer (and as the runtime prints
  it otherwise), and a public JWK with \<open>kty\<close> EC, \<open>crv\<close> P-256, \<open>kid\<close> the same
  identifier, \<open>x\<close> the base64url encoding of bytes 0 to 31 of the derived public key
  bytes and \<open>y\<close> that of bytes 32 to 63.
\<close>

theorem createKey_p256_returns:
  assumes "kty (type options) = ''EC''" and "crv (type options) = Some ''P-256''"
    and "p256Options options = Some p"
  shows "(createKey ext this agentCtx options w = (Inr r, w')) =
     (\<exists>dp256 mainKey privateKey publicKeyBytes base64X xCoord base64Y yCoord l'.
        newDeterministicP256 ext = Inr dp256 \<and>
        genDerivedMainKeyWithBIP39 dp256 (mnemonic p) = Inr mainKey \<and>
        genDomainSpecificKeyPair dp256 mainKey (origin p) (userHandle p)
          (case counter p of None \<Rightarrow> 0 | Some c \<Rightarrow> c) = Inr privateKey \<and>
        getPurePKBytes dp256 privateKey = Inr publicKeyBytes \<and>
        bufferToBase64 ext (take 32 publicKeyBytes) = Inr base64X \<and>
        base64ToBase64URL ext base64X = Inr xCoord \<and>
        bufferToBase64 ext (take 32 (drop 32 publicKeyBytes)) = Inr base64Y \<and>
        base64ToBase64URL ext base64Y = Inr yCoord \<and>
        logger_debug agentCtx
          (''Generated deterministic P-256 passkey for origin: '' @ origin p @
             '', user: '' @ userHandle p) (logger_state w) = (None, l') \<and>
        w' = w\<lparr>logger_state := l'\<rparr> \<and>
        keyId r = ''p256-'' @ origin p @ ''-'' @ userHandle p @ ''-'' @
                    (if isSafeInteger (case counter p of None \<Rightarrow> 0 | Some c \<Rightarrow> c)
                     then numberToString (case counter p of None \<Rightarrow> 0 | Some c \<Rightarrow> c)
                     else printUnsafeInteger ext (case counter p of None \<Rightarrow> 0 | Some c \<Rightarrow> c)) \<and>
        publicJwk r =
          \<lparr>jwk_kty = ''EC'', jwk_crv = Some ''P-256'', jwk_x = Some xCoord,
           jwk_y = Some yCoord, jwk_kid = Some (keyId r)\<rparr>)"
  unfolding createKey_p256 [OF assms(1,2)] by (rule createDeterministicP256Key_Inr [OF assms(3)])

text \<open>
  The first request of the unit test, without a counter, and a request with counter
  \<open>1205\<close> in the later world.
\<close>

theorem createKey_p256_returns_witness:
  "kty (type (p256Request None)) = ''EC'' \<and> crv (type (p256Request None)) = Some ''P-256'' \<and>
   p256Options (p256Request None) =
     Some \<lparr>mnemonic = TEST_MNEMONIC, origin = ''https://example.com'',
           userHandle = ''user123'', counter = None\<rparr> \<and>
   createKey mockExternals bip39Kms mockAgentContext (p256Request None) initialWorld =
     (Inr \<lparr>keyId = ''p256-https://example.com-user123-0'',
           publicJwk = \<lparr>jwk_kty = ''EC'', jwk_crv = Some ''P-256'',
             jwk_x = Some ''AwMDAwMDAwMDAwMDAwMDAwMDAwMDAwMDAwMDAwMDAwM'',
             jwk_y = Some ''AwMDAwMDAwMDAwMDAwMDAwMDAwMDAwMDAwMDAwMDAwM'',
             jwk_kid = Some ''p256-https://example.com-user123-0''\<rparr>\<rparr>,
      \<lparr>backend_state = 0,
       logger_state =
         [''Generated deterministic P-256 passkey for origin: https://example.com, user: user123''],
       calls = []\<rparr>) \<and>
   kty (type (p256Request (Some 1205))) = ''EC'' \<and>
   crv (type (p256Request (Some 1205))) = Some ''P-256'' \<and>
   p256Options (p256Request (Some 1205)) =
     Some \<lparr>mnemonic = TEST_MNEMONIC, origin = ''https://example.com'',
           userHandle = ''user123'', counter = Some 1205\<rparr> \<and>
   createKey mockExternals bip39Kms mockAgentContext (p256Request (Some 1205)) laterWorld =
     (Inr \<lparr>keyId = ''p256-https://example.com-user123-1205'',
           publicJwk = \<lparr>jwk_kty = ''EC'', jwk_crv = Some ''P-256'',
             jwk_x = Some ''AwMDAwMDAwMDAwMDAwMDAwMDAwMDAwMDAwMDAwMDAwM'',
             jwk_y = Some ''AwMDAwMDAwMDAwMDAwMDAwMDAwMDAwMDAwMDAwMDAwM'',
             jwk_kid = Some ''p256-https://example.com-user123-1205''\<rparr>\<rparr>,
      \<lparr>backend_state = 2,
       logger_state =
         [''earlier message'',
          ''Generated deterministic P-256 passkey for origin: https://example.com, user: user123''],
       calls = [CreateKeyCall ed25519Request, GetPublicKeyCall ''mock-key-id'']\<rparr>) \<and>
   isSafeInteger 1205 \<and> numberToString 1205 = ''1205'' \<and>
   genDerivedMainKeyWithBIP39 mockDeterministicP256 TEST_MNEMONIC = Inr (replicate 32 1) \<and>
   genDomainSpecificKeyPair mockDeterministicP256 (replicate 32 1) ''https://example.com''
     ''user123'' 1205 = Inr (replicate 32 2) \<and>
   getPurePKBytes mockDeterministicP256 (replicate 32 2) = Inr (replicate 64 3)"
proof -
  have digits: "isSafeInteger 1205" "numberToString 1205 = ''1205''"
    by code_simp+
  show ?thesis
    using createKey_p256_returns [OF p256Request_type [of None] p256Request_options,
        where ext = mockExternals and this = bip39Kms and agentCtx = mockAgentContext
          and w = initialWorld]
      createKey_p256_returns [OF p256Request_type [of "Some 1205"] p256Request_options,
        where ext = mockExternals and this = bip39Kms and agentCtx = mockAgentContext
          and w = laterWorld]
      mock_run_default mock_run_1205 digits
    by (auto simp add: p256Request_type p256Request_options mockExternals_def
        mockDeterministicP256_def)
qed

subsection \<open>Determinism\<close>

text \<open>
  C2: the derivation library being a function of its arguments, two invocations of key
  creation with the same mnemonic and the same derivation context (origin, user handle and
  counter, an omitted counter counting as \<open>0\<close>) have the same outcome, the same record with
  the same identifier and the same public JWK or the same error, whatever the wrapped
  service, the agent context, the state of the world and the other fields of the request
  are in each of the two runs, as long as the logger takes the debug message in both.
\<close>

theorem createKey_p256_deterministic:
  assumes "kty (type options1) = ''EC''" and "crv (type options1) = Some ''P-256''"
    and "kty (type options2) = ''EC''" and "crv (type options2) = Some ''P-256''"
    and "p256Options options1 = Some p1" and "p256Options options2 = Some p2"
    and "mnemonic p1 = mnemonic p2" and "origin p1 = origin p2"
    and "userHandle p1 = userHandle p2"
    and "(case counter p1 of None \<Rightarrow> 0 | Some c \<Rightarrow> c) =
         (case counter p2 of None \<Rightarrow> 0 | Some c \<Rightarrow> c)"
    and "fst (logger_debug agentCtx1
                (''Generated deterministic P-256 passkey for origin: '' @ origin p1 @
                   '', user: '' @ userHandle p1) (logger_state w1)) = None"
    and "fst (logger_debug agentCtx2
                (''Generated deterministic P-256 passkey for origin: '' @ origin p2 @
                   '', user: '' @ userHandle p2) (logger_state w2)) = None"
  shows "fst (createKey ext this1 agentCtx1 options1 w1) =
         fst (createKey ext this2 agentCtx2 options2 w2)"
  unfolding createKey_p256 [OF assms(1,2)] createKey_p256 [OF assms(3,4)]
  by (rule createDeterministicP256Key_same_context [OF assms(5-12)])

text \<open>
  Two requests for one context, one without a counter and one with counter \<open>0\<close> and a
  requested key identifier, in two worlds, with a library whose answers depend on what it
  is given.
\<close>

theorem createKey_p256_deterministic_witness:
  "kty (type (p256Request None)) = ''EC'' \<and> crv (type (p256Request None)) = Some ''P-256'' \<and>
   kty (type ((p256Request (Some 0))\<lparr>options_keyId := Some ''second''\<rparr>)) = ''EC'' \<and>
   crv (type ((p256Request (Some 0))\<lparr>options_keyId := Some ''second''\<rparr>)) = Some ''P-256'' \<and>
   p256Request None \<noteq> (p256Request (Some 0))\<lparr>options_keyId := Some ''second''\<rparr> \<and>
   fst (logger_debug mockAgentContext
          ''Generated deterministic P-256 passkey for origin: https://example.com, user: user123''
          (logger_state initialWorld)) = None \<and>
   fst (logger_debug mockAgentContext
          ''Generated deterministic P-256 passkey for origin: https://example.com, user: user123''
          (logger_state laterWorld)) = None \<and>
   fst (createKey toyExternals bip39Kms mockAgentContext
          ((p256Request (Some 0))\<lparr>options_keyId := Some ''second''\<rparr>) laterWorld) =
     fst (createKey toyExternals bip39Kms mockAgentContext (p256Request None) initialWorld) \<and>
   fst (createKey toyExternals bip39Kms mockAgentContext (p256Request None) initialWorld) =
     Inr \<lparr>keyId = ''p256-https://example.com-user123-0'',
          publicJwk = \<lparr>jwk_kty = ''EC'', jwk_crv = Some ''P-256'',
            jwk_x = Some ''AGh0dHBzOi8vZXhhbXBsZS5jb211c2VyMTIzYWJhbmQ'',
            jwk_y = Some ''ZG5hYmEzMjFyZXN1bW9jLmVscG1heGUvLzpzcHR0aAA'',
            jwk_kid = Some ''p256-https://example.com-user123-0''\<rparr>\<rparr>"
proof -
  let ?second = "(p256Request (Some 0))\<lparr>options_keyId := Some ''second''\<rparr>"
  let ?p1 = "\<lparr>mnemonic = TEST_MNEMONIC, origin = ''https://example.com'',
              userHandle = ''user123'', counter = None\<rparr>"
  let ?p2 = "\<lparr>mnemonic = TEST_MNEMONIC, origin = ''https://example.com'',
              userHandle = ''user123'', counter = Some 0\<rparr>"
  have t: "kty (type ?second) = ''EC''" "crv (type ?second) = Some ''P-256''"
    "p256Options ?second = Some ?p2" "p256Options (p256Request None) = Some ?p1"
    "p256Request None \<noteq> ?second"
    by (simp_all add: p256Request_def)
  have quiet: "fst (logger_debug mockAgentContext msg l) = None" for msg l
    by (simp add: mockAgentContext_def)
  have "fst (createKey toyExternals bip39Kms mockAgentContext (p256Request None) initialWorld) =
        fst (createKey toyExternals bip39Kms mockAgentContext ?second laterWorld)"
    by (rule createKey_p256_deterministic [OF p256Request_type t(1,2) t(4) t(3)])
      (simp_all add: quiet)
  then show ?thesis
    using t quiet toy_run by (simp add: p256Request_type)
qed

subsection \<open>Requests without a derivation context\<close>

text \<open>
  C3 (as stated): every key creation request without \<open>p256Options\<close> is forwarded unchanged
  to the wrapped service, for every key type, P-256 included. A P-256 request without
  \<open>p256Options\<close> is not forwarded: it fails, and the wrapped service, which would have
  answered with a key, is not called.
\<close>

theorem p256_without_options_not_forwarded:
  "p256Options p256RequestWithoutOptions = None \<and>
   createKey mockExternals bip39Kms mockAgentContext p256RequestWithoutOptions initialWorld =
     (Inl (CredoError ''p256Options required for deterministic P-256 key generation'' None),
      \<lparr>backend_state = 0, logger_state = [], calls = []\<rparr>) \<and>
   invoke (CreateKeyCall p256RequestWithoutOptions)
     (kms_createKey (wrappedKms bip39Kms) mockAgentContext p256RequestWithoutOptions)
     initialWorld =
     (Inr \<lparr>keyId = ''mock-key-id'',
           publicJwk = \<lparr>jwk_kty = ''OKP'', jwk_crv = Some ''Ed25519'',
                        jwk_x = Some ''mock-x-value'', jwk_y = None,
                        jwk_kid = Some ''mock-key-id''\<rparr>\<rparr>,
      \<lparr>backend_state = 1, logger_state = [],
       calls = [CreateKeyCall p256RequestWithoutOptions]\<rparr>)"
  by code_simp

text \<open>
  C3 (amended): every key creation request without \<open>p256Options\<close> whose type is not
  EC / P-256 is forwarded unchanged to the wrapped service, in one call, and the result of
  that call is returned unchanged. The type alone decides the branch, so the statement does
  not need the absence of \<open>p256Options\<close> as a hypothesis.
\<close>

theorem createKey_forwards_other_types:
  assumes "\<not> (kty (type options) = ''EC'' \<and> crv (type options) = Some ''P-256'')"
  shows "fst (createKey ext this agentCtx options w) =
           fst (kms_createKey (wrappedKms this) agentCtx options (backend_state w, logger_state w)) \<and>
         (backend_state (snd (createKey ext this agentCtx options w)),
          logger_state (snd (createKey ext this agentCtx options w))) =
           snd (kms_createKey (wrappedKms this) agentCtx options (backend_state w, logger_state w)) \<and>
         calls (snd (createKey ext this agentCtx options w)) = calls w @ [CreateKeyCall options]"
  by (simp add: createKey_other_types [OF assms] invoke_unfold)

text \<open>The Ed25519 request of the unit test.\<close>

theorem createKey_forwards_other_types_witness:
  "p256Options ed25519Request = None \<and>
   \<not> (kty (type ed25519Request) = ''EC'' \<and> crv (type ed25519Request) = Some ''P-256'') \<and>
   fst (createKey mockExternals bip39Kms mockAgentContext ed25519Request initialWorld) =
     Inr \<lparr>keyId = ''mock-key-id'',
          publicJwk = \<lparr>jwk_kty = ''OKP'', jwk_crv = Some ''Ed25519'',
                       jwk_x = Some ''mock-x-value'', jwk_y = None,
                       jwk_kid = Some ''mock-key-id''\<rparr>\<rparr> \<and>
   backend_state (snd (createKey mockExternals bip39Kms mockAgentContext ed25519Request
                         initialWorld)) = 1 \<and>
   calls (snd (createKey mockExternals bip39Kms mockAgentContext ed25519Request initialWorld)) =
     [CreateKeyCall ed25519Request]"
proof -
  have n: "p256Options ed25519Request = None"
    by (simp add: ed25519Request_def)
  have t: "\<not> (kty (type ed25519Request) = ''EC'' \<and> crv (type ed25519Request) = Some ''P-256'')"
    by (simp add: ed25519Request_def)
  show ?thesis
    using n t createKey_forwards_other_types
      [OF t, of mockExternals bip39Kms mockAgentContext initialWorld]
    by (simp add: bip39Kms_def BIP39KeyManagementService_def mockWrappedKms_def mockAnswer_def
        initialWorld_def)
qed

text \<open>
  C4: on the P-256 branch the call fails with the error that reports the missing
  \<open>p256Options\<close> exactly when \<open>p256Options\<close> is absent, and then the world is as it was:
  no method of the wrapped service has been called.
\<close>

theorem createKey_p256_missing_options:
  assumes "kty (type options) = ''EC''" and "crv (type options) = Some ''P-256''"
  shows "(p256Options options = None) =
           (createKey ext this agentCtx options w =
              (Inl (CredoError ''p256Options required for deterministic P-256 key generation'' None),
               w)) \<and>
         (p256Options options = None) =
           (fst (createKey ext this agentCtx options w) =
              Inl (CredoError ''p256Options required for deterministic P-256 key generation'' None))"
  using assms
  by (auto simp add: createKey_def createDeterministicP256Key_def Let_def catchClause_def
      split: sum.splits prod.splits option.splits)

text \<open>The P-256 request of the unit test that lacks \<open>p256Options\<close>.\<close>

theorem createKey_p256_missing_options_witness:
  "kty (type p256RequestWithoutOptions) = ''EC'' \<and>
   crv (type p256RequestWithoutOptions) = Some ''P-256'' \<and>
   p256Options p256RequestWithoutOptions = None \<and>
   createKey mockExternals bip39Kms mockAgentContext p256RequestWithoutOptions initialWorld =
     (Inl (CredoError ''p256Options required for deterministic P-256 key generation'' None),
      initialWorld)"
  using createKey_p256_missing_options
    [of p256RequestWithoutOptions mockExternals bip39Kms mockAgentContext initialWorld]
  by (simp add: p256RequestWithoutOptions_def)

subsection \<open>Negative counters\<close>

text \<open>
  C5 (as stated): a negative counter on the deterministic P-256 path is rejected with an
  InvalidArgument error before any derivation. With the derivation library of the unit test
  the request with counter \<open>-1\<close> returns a key, named \<open>p256-https://example.com-user123--1\<close>.
\<close>

theorem negative_counter_accepted:
  "p256Options (p256Request (Some (- 1))) =
     Some \<lparr>mnemonic = TEST_MNEMONIC, origin = ''https://example.com'',
           userHandle = ''user123'', counter = Some (- 1)\<rparr> \<and>
   createKey mockExternals bip39Kms mockAgentContext (p256Request (Some (- 1))) initialWorld =
     (Inr \<lparr>keyId = ''p256-https://example.com-user123--1'',
           publicJwk = \<lparr>jwk_kty = ''EC'', jwk_crv = Some ''P-256'',
             jwk_x = Some ''AwMDAwMDAwMDAwMDAwMDAwMDAwMDAwMDAwMDAwMDAwM'',
             jwk_y = Some ''AwMDAwMDAwMDAwMDAwMDAwMDAwMDAwMDAwMDAwMDAwM'',
             jwk_kid = Some ''p256-https://example.com-user123--1''\<rparr>\<rparr>,
      \<lparr>backend_state = 0,
       logger_state =
         [''Generated deterministic P-256 passkey for origin: https://example.com, user: user123''],
       calls = []\<rparr>)"
  by code_simp

text \<open>
  C5 (amended): the service does not check a negative counter. It hands the counter
  unchanged to \<open>genDomainSpecificKeyPair\<close>, after the main key has been derived. When
  nothing in the \<^verbatim>\<open>try\<close> block throws, the call returns a key whose identifier ends in
  the signed counter, \<open>p256-<origin>-<userHandle>--<digits>\<close> for a safe integer. The call
  fails exactly when something in the \<^verbatim>\<open>try\<close> block throws (the construction of the
  library object, a step of the derivation, an encoder or the logger), and the error is
  then the \<open>CredoError\<close> of the \<^verbatim>\<open>catch\<close> clause, which carries the message of what was
  thrown and has it as its cause.
\<close>

theorem negative_counter_outcome:
  assumes "kty (type options) = ''EC''" and "crv (type options) = Some ''P-256''"
    and "p256Options options = Some p" and "counter p = Some c"
    and "c < 0" and "isSafeInteger c"
  shows "((fst (createKey ext this agentCtx options w) = Inr r) =
     (\<exists>dp256 mainKey privateKey publicKeyBytes base64X xCoord base64Y yCoord.
        newDeterministicP256 ext = Inr dp256 \<and>
        genDerivedMainKeyWithBIP39 dp256 (mnemonic p) = Inr mainKey \<and>
        genDomainSpecificKeyPair dp256 mainKey (origin p) (userHandle p) c = Inr privateKey \<and>
        getPurePKBytes dp256 privateKey = Inr publicKeyBytes \<and>
        bufferToBase64 ext (take 32 publicKeyBytes) = Inr base64X \<and>
        base64ToBase64URL ext base64X = Inr xCoord \<and>
        bufferToBase64 ext (take 32 (drop 32 publicKeyBytes)) = Inr base64Y \<and>
        base64ToBase64URL ext base64Y = Inr yCoord \<and>
        fst (logger_debug agentCtx
               (''Generated deterministic P-256 passkey for origin: '' @ origin p @
                  '', user: '' @ userHandle p) (logger_state w)) = None \<and>
        keyId r = ''p256-'' @ origin p @ ''-'' @ userHandle p @ ''--'' @ digits (nat (- c)) \<and>
        publicJwk r =
          \<lparr>jwk_kty = ''EC'', jwk_crv = Some ''P-256'', jwk_x = Some xCoord,
           jwk_y = Some yCoord, jwk_kid = Some (keyId r)\<rparr>)) \<and>
   ((fst (createKey ext this agentCtx options w) = Inl e) =
     (\<exists>t. e = CredoError
                (''Failed to generate deterministic P-256 passkey: '' @
                   (case t of CredoError m cause \<Rightarrow> m | JsError m \<Rightarrow> m
                    | NonError \<Rightarrow> ''Unknown error''))
                (Some t) \<and>
       (newDeterministicP256 ext = Inl t \<or>
        (\<exists>dp256. newDeterministicP256 ext = Inr dp256 \<and>
         (genDerivedMainKeyWithBIP39 dp256 (mnemonic p) = Inl t \<or>
          (\<exists>mainKey. genDerivedMainKeyWithBIP39 dp256 (mnemonic p) = Inr mainKey \<and>
           (genDomainSpecificKeyPair dp256 mainKey (origin p) (userHandle p) c = Inl t \<or>
            (\<exists>privateKey.
               genDomainSpecificKeyPair dp256 mainKey (origin p) (userHandle p) c =
                 Inr privateKey \<and>
             (getPurePKBytes dp256 privateKey = Inl t \<or>
              (\<exists>publicKeyBytes. getPurePKBytes dp256 privateKey = Inr publicKeyBytes \<and>
               (bufferToBase64 ext (take 32 publicKeyBytes) = Inl t \<or>
                (\<exists>base64X. bufferToBase64 ext (take 32 publicKeyBytes) = Inr base64X \<and>
                 (base64ToBase64URL ext base64X = Inl t \<or>
                  (\<exists>xCoord. base64ToBase64URL ext base64X = Inr xCoord \<and>
                   (bufferToBase64 ext (take 32 (drop 32 publicKeyBytes)) = Inl t \<or>
                    (\<exists>base64Y.
                       bufferToBase64 ext (take 32 (drop 32 publicKeyBytes)) = Inr base64Y \<and>
                     (base64ToBase64URL ext base64Y = Inl t \<or>
                      (\<exists>yCoord. base64ToBase64URL ext base64Y = Inr yCoord \<and>
                         fst (logger_debug agentCtx
                                (''Generated deterministic P-256 passkey for origin: '' @
                                   origin p @ '', user: '' @ userHandle p)
                                (logger_state w)) = Some t))))))))))))))))))"
    (is "?returns \<and> ?fails")
proof -
  have cnt: "(case counter p of None \<Rightarrow> 0 | Some c \<Rightarrow> c) = c"
    using assms(4) by simp
  have rendered: "numberToString c = CHR ''-'' # digits (nat (- c))"
    using assms(5) by (simp add: numberToString_def)
  have "(fst (createKey ext this agentCtx options w) = Inr r) =
      (\<exists>w'. createDeterministicP256Key ext this agentCtx options w = (Inr r, w'))"
    unfolding createKey_p256 [OF assms(1,2)] by (rule fst_eq_iff)
  then have ?returns
    unfolding createDeterministicP256Key_Inr [OF assms(3)] cnt
    using assms(6) rendered
    by (auto simp add: fst_eq_iff [of "logger_debug agentCtx msg l" for msg l])
  moreover have ?fails
    unfolding createKey_p256 [OF assms(1,2)]
    by (rule createDeterministicP256Key_Inl [OF assms(3), unfolded cnt])
  ultimately show ?thesis by (rule conjI)
qed

text \<open>
  Counter \<open>-1\<close> with the library of the unit test, with a library that refuses negative
  counters, and with a library whose construction fails.
\<close>

theorem negative_counter_outcome_witness:
  "kty (type (p256Request (Some (- 1)))) = ''EC'' \<and>
   crv (type (p256Request (Some (- 1)))) = Some ''P-256'' \<and>
   p256Options (p256Request (Some (- 1))) =
     Some \<lparr>mnemonic = TEST_MNEMONIC, origin = ''https://example.com'',
           userHandle = ''user123'', counter = Some (- 1)\<rparr> \<and>
   (- 1 :: int) < 0 \<and> isSafeInteger (- 1) \<and>
   fst (createKey mockExternals bip39Kms mockAgentContext (p256Request (Some (- 1)))
          initialWorld) =
     Inr \<lparr>keyId = ''p256-https://example.com-user123--1'',
          publicJwk = \<lparr>jwk_kty = ''EC'', jwk_crv = Some ''P-256'',
            jwk_x = Some ''AwMDAwMDAwMDAwMDAwMDAwMDAwMDAwMDAwMDAwMDAwM'',
            jwk_y = Some ''AwMDAwMDAwMDAwMDAwMDAwMDAwMDAwMDAwMDAwMDAwM'',
            jwk_kid = Some ''p256-https://example.com-user123--1''\<rparr>\<rparr> \<and>
   fst (createKey strictExternals bip39Kms mockAgentContext (p256Request (Some (- 1)))
          initialWorld) =
     Inl (CredoError
            ''Failed to generate deterministic P-256 passkey: counter must not be negative''
            (Some (JsError ''counter must not be negative''))) \<and>
   fst (createKey brokenExternals bip39Kms mockAgentContext (p256Request (Some (- 1)))
          initialWorld) =
     Inl (CredoError ''Failed to generate deterministic P-256 passkey: no crypto''
            (Some (JsError ''no crypto'')))"
proof -
  have c: "counter \<lparr>mnemonic = TEST_MNEMONIC, origin = ''https://example.com'',
                    userHandle = ''user123'', counter = Some (- 1)\<rparr> = Some (- 1)"
    by simp
  have neg: "(- 1 :: int) < 0" by simp
  have safe: "isSafeInteger (- 1)" by (simp add: isSafeInteger_def)
  note outcome = negative_counter_outcome [OF p256Request_type p256Request_options c neg safe]
  show ?thesis
    using outcome [where ext = mockExternals and this = bip39Kms
          and agentCtx = mockAgentContext and w = initialWorld
          and e = "CredoError [] None"
          and r = "\<lparr>keyId = ''p256-https://example.com-user123--1'',
            publicJwk = \<lparr>jwk_kty = ''EC'', jwk_crv = Some ''P-256'',
              jwk_x = Some ''AwMDAwMDAwMDAwMDAwMDAwMDAwMDAwMDAwMDAwMDAwM'',
              jwk_y = Some ''AwMDAwMDAwMDAwMDAwMDAwMDAwMDAwMDAwMDAwMDAwM'',
              jwk_kid = Some ''p256-https://example.com-user123--1''\<rparr>\<rparr>"]
      mock_run_minus_one strict_run_minus_one broken_run_minus_one neg safe
    by (simp only: p256Request_type p256Request_options simp_thms)
qed

subsection \<open>The frame of a deterministic key creation\<close>

text \<open>
  C8: on the P-256 branch, whether the call succeeds or fails, the state of the wrapped
  service and the list of the calls made on it are as before, and the outcome does not
  depend on the wrapped service or on its state: nothing, the derived private key included,
  is handed to it.
\<close>

theorem p256_path_leaves_backend_alone:
  assumes "kty (type options) = ''EC''" and "crv (type options) = Some ''P-256''"
  shows "backend_state (snd (createKey ext this agentCtx options w)) = backend_state w \<and>
         calls (snd (createKey ext this agentCtx options w)) = calls w \<and>
         fst (createKey ext this agentCtx options w) =
           fst (createKey ext this' agentCtx options
                  \<lparr>backend_state = s', logger_state = logger_state w, calls = cs'\<rparr>)"
  unfolding createKey_p256 [OF assms]
  using createDeterministicP256Key_frame [of ext this agentCtx options w]
    createDeterministicP256Key_backend_free [of ext this agentCtx options w this' s' cs']
  by simp

text \<open>A request with counter \<open>5\<close> in the later world.\<close>

theorem p256_path_leaves_backend_alone_witness:
  "kty (type (p256Request (Some 5))) = ''EC'' \<and>
   crv (type (p256Request (Some 5))) = Some ''P-256'' \<and>
   backend_state (snd (createKey mockExternals bip39Kms mockAgentContext (p256Request (Some 5))
                         laterWorld)) = 2 \<and>
   calls (snd (createKey mockExternals bip39Kms mockAgentContext (p256Request (Some 5))
                 laterWorld)) =
     [CreateKeyCall ed25519Request, GetPublicKeyCall ''mock-key-id'']"
  using p256_path_leaves_backend_alone
    [OF p256Request_type [of "Some 5"], where ext = mockExternals and this = bip39Kms
       and agentCtx = mockAgentContext and w = laterWorld
       and this' = bip39Kms and s' = "0::nat" and cs' = "[]"]
  by (simp add: p256Request_type laterWorld_def)

subsection \<open>The operations that are passed through\<close>

text \<open>
  C7: each of \<open>getPublicKey\<close>, \<open>importKey\<close>, \<open>deleteKey\<close>, \<open>randomBytes\<close>, \<open>sign\<close>,
  \<open>verify\<close>, \<open>encrypt\<close> and \<open>decrypt\<close> returns what the method of the same name of the
  wrapped service returns on the same arguments, leaves the states as that method leaves
  them, and makes exactly that one call.
\<close>

theorem other_operations_pass_through:
  "fst (getPublicKey this agentCtx kid w) =
     fst (kms_getPublicKey (wrappedKms this) agentCtx kid (backend_state w, logger_state w)) \<and>
   (backend_state (snd (getPublicKey this agentCtx kid w)),
    logger_state (snd (getPublicKey this agentCtx kid w))) =
     snd (kms_getPublicKey (wrappedKms this) agentCtx kid (backend_state w, logger_state w)) \<and>
   calls (snd (getPublicKey this agentCtx kid w)) = calls w @ [GetPublicKeyCall kid] \<and>
   fst (importKey this agentCtx options w) =
     fst (kms_importKey (wrappedKms this) agentCtx options (backend_state w, logger_state w)) \<and>
   (backend_state (snd (importKey this agentCtx options w)),
    logger_state (snd (importKey this agentCtx options w))) =
     snd (kms_importKey (wrappedKms this) agentCtx options (backend_state w, logger_state w)) \<and>
   calls (snd (importKey this agentCtx options w)) = calls w @ [ImportKeyCall options] \<and>
   fst (deleteKey this agentCtx options w) =
     fst (kms_deleteKey (wrappedKms this) agentCtx options (backend_state w, logger_state w)) \<and>
   (backend_state (snd (deleteKey this agentCtx options w)),
    logger_state (snd (deleteKey this agentCtx options w))) =
     snd (kms_deleteKey (wrappedKms this) agentCtx options (backend_state w, logger_state w)) \<and>
   calls (snd (deleteKey this agentCtx options w)) = calls w @ [DeleteKeyCall options] \<and>
   fst (randomBytes this agentCtx options w) =
     fst (kms_randomBytes (wrappedKms this) agentCtx options (backend_state w, logger_state w)) \<and>
   (backend_state (snd (randomBytes this agentCtx options w)),
    logger_state (snd (randomBytes this agentCtx options w))) =
     snd (kms_randomBytes (wrappedKms this) agentCtx options (backend_state w, logger_state w)) \<and>
   calls (snd (randomBytes this agentCtx options w)) = calls w @ [RandomBytesCall options] \<and>
   fst (sign this agentCtx options w) =
     fst (kms_sign (wrappedKms this) agentCtx options (backend_state w, logger_state w)) \<and>
   (backend_state (snd (sign this agentCtx options w)),
    logger_state (snd (sign this agentCtx options w))) =
     snd (kms_sign (wrappedKms this) agentCtx options (backend_state w, logger_state w)) \<and>
   calls (snd (sign this agentCtx options w)) = calls w @ [SignCall options] \<and>
   fst (verify this agentCtx options w) =
     fst (kms_verify (wrappedKms this) agentCtx options (backend_state w, logger_state w)) \<and>
   (backend_state (snd (verify this agentCtx options w)),
    logger_state (snd (verify this agentCtx options w))) =
     snd (kms_verify (wrappedKms this) agentCtx options (backend_state w, logger_state w)) \<and>
   calls (snd (verify this agentCtx options w)) = calls w @ [VerifyCall options] \<and>
   fst (encrypt this agentCtx options w) =
     fst (kms_encrypt (wrappedKms this) agentCtx options (backend_state w, logger_state w)) \<and>
   (backend_state (snd (encrypt this agentCtx options w)),
    logger_state (snd (encrypt this agentCtx options w))) =
     snd (kms_encrypt (wrappedKms this) agentCtx options (backend_state w, logger_state w)) \<and>
   calls (snd (encrypt this agentCtx options w)) = calls w @ [EncryptCall options] \<and>
   fst (decrypt this agentCtx options w) =
     fst (kms_decrypt (wrappedKms this) agentCtx options (backend_state w, logger_state w)) \<and>
   (backend_state (snd (decrypt this agentCtx options w)),
    logger_state (snd (decrypt this agentCtx options w))) =
     snd (kms_decrypt (wrappedKms this) agentCtx options (backend_state w, logger_state w)) \<and>
   calls (snd (decrypt this agentCtx options w)) = calls w @ [DecryptCall options]"
  by (simp add: getPublicKey_def importKey_def deleteKey_def randomBytes_def sign_def
      verify_def encrypt_def decrypt_def invoke_unfold)

subsection \<open>Capabilities and name\<close>

text \<open>
  C9: \<open>supportsKeyType\<close> and \<open>isOperationSupported\<close> answer true on every input, whatever
  the wrapped service supports.
\<close>

theorem supports_everything:
  "supportsKeyType this keyTypeArgs = True \<and> isOperationSupported this operationArgs = True"
  by (simp add: supportsKeyType_def isOperationSupported_def)

text \<open>
  C10: the backend identifier of the service is the constant \<open>BIP39P256\<close>, whatever service
  it wraps.
\<close>

theorem backend_is_BIP39P256:
  "backend (BIP39KeyManagementService k) = ''BIP39P256''"
  by (simp add: BIP39KeyManagementService_def)

end
